theory Spec2Isabelle
  imports Complex_Main
begin

section \<open>LassoESM example notebooks: embedding extraction and substrate-tolerance evaluation\<close>

text \<open>
  The repository is two notebooks. The first extracts one mean-pooled embedding per peptide
  sequence from a pretrained protein language model and saves the matrix
  (\<^verbatim>\<open>get_mean_rep\<close>, \<^verbatim>\<open>process_embeddings\<close>); the second searches hyperparameters for four
  classifier families and evaluates them by repeated cross-validation (\<^verbatim>\<open>cv_res\<close>).

  The notebooks' own code is embedded function by function. The libraries they call
  (transformers, torch, pandas, numpy, scikit-learn) are not part of the repository: each
  library call is a field of an environment record, a function that may return an error, and
  the notebooks' functions take the environment as their first argument. Floating-point
  numbers are idealised as \<^typ>\<open>real\<close>: rounding is not modelled. Console output
  (\<^verbatim>\<open>print\<close>) is left out.
\<close>

subsection \<open>Errors\<close>

text \<open>
  Python exceptions. \<open>ValueError\<close>, \<open>KeyError\<close>, \<open>TypeError\<close> and \<open>IndexError\<close> are the
  ones the notebooks' own expressions can raise; \<open>LibraryError\<close> tags an exception raised
  inside a library call (a model that cannot be loaded, a file that cannot be parsed or
  written, a sequence the model rejects).
\<close>

datatype error =
    ValueError string
  | KeyError string
  | TypeError string
  | IndexError
  | LibraryError string

subsection \<open>Tensors and arrays\<close>

text \<open>
  A two-dimensional float tensor is its shape and its entries; \<open>entry t i j\<close> is read only for
  \<open>i < dim0 t\<close> and \<open>j < dim1 t\<close>. The mean of zero floats is NaN in torch, so the elements
  of a pooled vector are either a number or NaN.
\<close>

record tensor2 =
  dim0 :: nat
  dim1 :: nat
  entry :: "nat \<Rightarrow> nat \<Rightarrow> real"

datatype fl = Fin real | NaN

text \<open>
  A numpy array as \<^verbatim>\<open>np.array\<close> builds it from a list of vectors: the shape tuple and the
  rows. The array of an empty list has shape \<open>(0,)\<close>.
\<close>

record ndarray =
  shape :: "nat list"
  arr_rows :: "fl list list"

type_synonym fs = "string \<rightharpoonup> ndarray"

subsection \<open>The external collaborators of the extraction notebook\<close>

text \<open>
  A tokenizer maps a sequence to the token ids of a single-example batch, special tokens
  included. A model, called with \<^verbatim>\<open>output_hidden_states=True\<close>, returns the tuple of hidden
  states: one tensor of shape (batch, tokens, hidden) per layer, here the list of its
  per-example (tokens, hidden) slices. \<open>hidden_size\<close> and \<open>max_ctx\<close> are the model's
  configured hidden width and maximum number of positions.
\<close>

record tokenizer =
  encode :: "string \<Rightarrow> error + nat list"

record model =
  hidden_size :: nat
  max_ctx :: nat
  forward :: "nat list \<Rightarrow> error + tensor2 list list"

text \<open>
  A parsed table: the column names and, column by column, the cells. Cells are kept as text;
  whatever pandas infers for a cell, the tokenizer decides whether it accepts it.
\<close>

record dataframe =
  col_names :: "string list"
  col_data :: "string list list"

text \<open>
  \<open>save_fails\<close> says when \<^verbatim>\<open>np.save\<close> raises, and what the file system holds afterwards.
\<close>

record hf_env =
  from_pretrained_model :: "string \<Rightarrow> error + model"
  from_pretrained_tokenizer :: "string \<Rightarrow> error + tokenizer"
  read_csv :: "string \<Rightarrow> error + dataframe"
  save_fails :: "string \<Rightarrow> ndarray \<Rightarrow> fs \<Rightarrow> (error \<times> fs) option"

subsection \<open>Model configuration\<close>

record config =
  model_path :: string
  output_file :: string

text \<open>The dictionary \<^verbatim>\<open>MODELS\<close>, in insertion order.\<close>

definition MODELS :: "(string \<times> config) list" where
  "MODELS =
    [(''Lasso_ESM'',
        \<lparr>model_path = ''ShuklaGroupIllinois/LassoESM'', output_file = ''FusA_LassoESM.npy''\<rparr>),
     (''VanillaESM'',
        \<lparr>model_path = ''facebook/esm2_t33_650M_UR50D'', output_file = ''FusA_VanillaESM.npy''\<rparr>),
     (''PeptideESM'',
        \<lparr>model_path = ''ShuklaGroupIllinois/PeptideESM2_650M'',
         output_file = ''FusA_PeptideESM_650M.npy''\<rparr>)]"

subsection \<open>\<^verbatim>\<open>get_mean_rep\<close>\<close>

text \<open>\<^verbatim>\<open>xs[-1]\<close> on a tuple and \<^verbatim>\<open>xs[0]\<close> on the batch axis: IndexError when there is nothing.\<close>

definition index_last :: "'a list \<Rightarrow> error + 'a" where
  "index_last xs = (if xs = [] then Inl IndexError else Inr (last xs))"

definition index_first :: "'a list \<Rightarrow> error + 'a" where
  "index_first xs = (case xs of [] \<Rightarrow> Inl IndexError | x # _ \<Rightarrow> Inr x)"

text \<open>
  \<^verbatim>\<open>representations.mean(dim=0)\<close>: component \<open>j\<close> is the sum of column \<open>j\<close> over every row,
  divided by the number of rows; NaN when there is no row.
\<close>

definition mean_dim0 :: "tensor2 \<Rightarrow> fl list" where
  "mean_dim0 t =
     map (\<lambda>j. if dim0 t = 0 then NaN
               else Fin (sum_list (map (\<lambda>i. entry t i j) [0..<dim0 t]) / real (dim0 t)))
         [0..<dim1 t]"

definition get_mean_rep :: "string \<Rightarrow> model \<Rightarrow> tokenizer \<Rightarrow> error + fl list" where
  "get_mean_rep sequence mdl tok =
     (case encode tok sequence of
        Inl e \<Rightarrow> Inl e
      | Inr token_ids \<Rightarrow>
          (case forward mdl token_ids of
             Inl e \<Rightarrow> Inl e
           | Inr hidden_states \<Rightarrow>
               (case index_last hidden_states of
                  Inl e \<Rightarrow> Inl e
                | Inr layer \<Rightarrow>
                    (case index_first layer of
                       Inl e \<Rightarrow> Inl e
                     | Inr representations \<Rightarrow> Inr (mean_dim0 representations)))))"

subsection \<open>\<^verbatim>\<open>process_embeddings\<close>\<close>

text \<open>
  The text of \<^verbatim>\<open>list(MODELS.keys())\<close> inside the f-string: the \<^verbatim>\<open>repr\<close> of a list of strings
  (the keys hold no quote and no escape).
\<close>

definition str_repr :: "string \<Rightarrow> string" where
  "str_repr s = CHR 0x27 # s @ [CHR 0x27]"

fun join_commas :: "string list \<Rightarrow> string" where
  "join_commas [] = []"
| "join_commas [s] = s"
| "join_commas (s # t # ss) = s @ '', '' @ join_commas (t # ss)"

definition list_repr :: "string list \<Rightarrow> string" where
  "list_repr ss = ''['' @ join_commas (map str_repr ss) @ '']''"

definition not_configured :: "string \<Rightarrow> error" where
  "not_configured model_name =
     ValueError (''Model '' @ model_name @ '' not configured. Available models: ''
                 @ list_repr (map fst MODELS))"

text \<open>\<^verbatim>\<open>data.iloc[:, 0].tolist()\<close>: the first column, IndexError when the table has no column.\<close>

definition iloc_col0 :: "dataframe \<Rightarrow> error + string list" where
  "iloc_col0 df = (case col_data df of [] \<Rightarrow> Inl IndexError | c # _ \<Rightarrow> Inr c)"

text \<open>The list comprehension over \<^verbatim>\<open>seq_ls\<close>: in order, stopping at the first exception.\<close>

fun embed_all :: "string list \<Rightarrow> model \<Rightarrow> tokenizer \<Rightarrow> error + fl list list" where
  "embed_all [] mdl tok = Inr []"
| "embed_all (s # ss) mdl tok =
     (case get_mean_rep s mdl tok of
        Inl e \<Rightarrow> Inl e
      | Inr v \<Rightarrow>
          (case embed_all ss mdl tok of
             Inl e \<Rightarrow> Inl e
           | Inr vs \<Rightarrow> Inr (v # vs)))"

text \<open>
  \<^verbatim>\<open>np.array\<close> on a list of vectors: a matrix with one row per vector when they have one
  length, ValueError otherwise; shape \<open>(0,)\<close> for the empty list.
\<close>

fun np_array :: "fl list list \<Rightarrow> error + ndarray" where
  "np_array [] = Inr \<lparr>shape = [0], arr_rows = []\<rparr>"
| "np_array (v # vs) =
     (if list_all (\<lambda>w. length w = length v) vs
      then Inr \<lparr>shape = [Suc (length vs), length v], arr_rows = v # vs\<rparr>
      else Inl (ValueError ''inhomogeneous shape''))"

text \<open>\<^verbatim>\<open>np.save\<close>: on success the file holds the array, whatever it held before.\<close>

definition np_save :: "hf_env \<Rightarrow> string \<Rightarrow> ndarray \<Rightarrow> fs \<Rightarrow> (error + unit) \<times> fs" where
  "np_save env file arr files =
     (case save_fails env file arr files of
        Some (e, files') \<Rightarrow> (Inl e, files')
      | None \<Rightarrow> (Inr (), files(file \<mapsto> arr)))"

definition process_embeddings ::
  "hf_env \<Rightarrow> string \<Rightarrow> string \<Rightarrow> fs \<Rightarrow> (error + unit) \<times> fs" where
  "process_embeddings env data_file model_name files =
     (case map_of MODELS model_name of
        None \<Rightarrow> (Inl (not_configured model_name), files)
      | Some cfg \<Rightarrow>
          (case from_pretrained_model env (model_path cfg) of
             Inl e \<Rightarrow> (Inl e, files)
           | Inr mdl \<Rightarrow>
               (case from_pretrained_tokenizer env (model_path cfg) of
                  Inl e \<Rightarrow> (Inl e, files)
                | Inr tok \<Rightarrow>
                    (case read_csv env data_file of
                       Inl e \<Rightarrow> (Inl e, files)
                     | Inr data \<Rightarrow>
                         (case iloc_col0 data of
                            Inl e \<Rightarrow> (Inl e, files)
                          | Inr seq_ls \<Rightarrow>
                              (case embed_all seq_ls mdl tok of
                                 Inl e \<Rightarrow> (Inl e, files)
                               | Inr seq_embs \<Rightarrow>
                                   (case np_array seq_embs of
                                      Inl e \<Rightarrow> (Inl e, files)
                                    | Inr arr \<Rightarrow>
                                        np_save env (output_file cfg) arr files)))))))"

text \<open>
  The notebook's last cell: \<^verbatim>\<open>process_embeddings\<close> for every key of \<^verbatim>\<open>MODELS\<close>, in order, on
  the one data file. An exception ends the loop.
\<close>

fun run_models :: "hf_env \<Rightarrow> string \<Rightarrow> string list \<Rightarrow> fs \<Rightarrow> (error + unit) \<times> fs" where
  "run_models env data_file [] files = (Inr (), files)"
| "run_models env data_file (model_name # rest) files =
     (case process_embeddings env data_file model_name files of
        (Inl e, files') \<Rightarrow> (Inl e, files')
      | (Inr u, files') \<Rightarrow> run_models env data_file rest files')"

definition main :: "hf_env \<Rightarrow> fs \<Rightarrow> (error + unit) \<times> fs" where
  "main env files =
     (let data_file =
        ''../data/data_for_substrate_tolerance_prediction/FusA_tolerance_dataset.csv''
      in run_models env data_file (map fst MODELS) files)"

subsection \<open>The evaluation notebook: values, estimators and the library\<close>

text \<open>Python values that occur as hyperparameters.\<close>

datatype pyval =
    PInt int
  | PFloat real
  | PStr string
  | PBool bool
  | PTuple "pyval list"

type_synonym kwargs = "(string \<times> pyval) list"

datatype est_class = RandomForestClassifier | AdaBoostClassifier | SVC | MLPClassifier

text \<open>
  An estimator object is the constructor call that made it: the class and the keyword
  arguments, in order. A parameter that is not among the keyword arguments has the
  library's default; for \<^verbatim>\<open>random_state\<close> the default is \<^verbatim>\<open>None\<close>, no seed.
\<close>

record estimator =
  est_class :: est_class
  est_kwargs :: kwargs

definition random_state_of :: "estimator \<Rightarrow> pyval option" where
  "random_state_of est = map_of (est_kwargs est) ''random_state''"

text \<open>\<^verbatim>\<open>RepeatedKFold(n_splits, n_repeats, random_state)\<close>.\<close>

record cv_splitter =
  n_splits :: nat
  n_repeats :: nat
  cv_random_state :: "int option"

text \<open>\<^verbatim>\<open>GridSearchCV(pipeline, parameters, n_jobs, cv, scoring)\<close>; a pipeline is its steps.\<close>

record grid_search =
  gs_estimator :: "(string \<times> estimator) list"
  gs_param_grid :: "(string \<times> pyval list) list"
  gs_n_jobs :: int
  gs_cv :: nat
  gs_scoring :: string

text \<open>
  The scikit-learn calls. Whatever is not seeded draws from ambient randomness (the global
  generator, operating-system entropy): its state \<open>'g\<close> goes in and comes out of every call.
  \<open>init_error\<close> is the constructor's own check of its keyword arguments;
  \<open>cross_val_score\<close> returns the raw per-fold scores; \<open>fit_best_params\<close> is
  \<^verbatim>\<open>grid_search.fit(Xs, ys)\<close> followed by reading \<^verbatim>\<open>best_params_\<close>.
\<close>

record ('x, 'y, 'g) sk_env =
  init_error :: "est_class \<Rightarrow> kwargs \<Rightarrow> error option"
  cross_val_score ::
    "estimator \<Rightarrow> 'x \<Rightarrow> 'y \<Rightarrow> cv_splitter \<Rightarrow> int \<Rightarrow> string \<Rightarrow> 'g \<Rightarrow> (error + real list) \<times> 'g"
  fit_best_params :: "grid_search \<Rightarrow> 'x \<Rightarrow> 'y \<Rightarrow> 'g \<Rightarrow> (error + kwargs) \<times> 'g"

subsection \<open>Grid search\<close>













subsection \<open>\<^verbatim>\<open>cv_res\<close>\<close>

definition random_seed :: int where
  "random_seed = 42"

text \<open>\<^verbatim>\<open>d[k]\<close> on a dictionary.\<close>

definition getitem :: "(string \<times> 'v) list \<Rightarrow> string \<Rightarrow> error + 'v" where
  "getitem d k = (case map_of d k of None \<Rightarrow> Inl (KeyError k) | Some v \<Rightarrow> Inr v)"

text \<open>
  \<^verbatim>\<open>Cls(**best_params[name], random_state=random_seed)\<close>: KeyError when the family has no
  entry, TypeError when the entry itself has a \<^verbatim>\<open>random_state\<close> (a keyword given twice), then
  the constructor's own check.
\<close>

definition seeded_estimator ::
  "('x, 'y, 'g) sk_env \<Rightarrow> est_class \<Rightarrow> (string \<times> kwargs) list \<Rightarrow> string \<Rightarrow> error + estimator" where
  "seeded_estimator env cls best_params name =
     (case getitem best_params name of
        Inl e \<Rightarrow> Inl e
      | Inr params \<Rightarrow>
          (if ''random_state'' \<in> set (map fst params)
           then Inl (TypeError ''multiple values for keyword argument random_state'')
           else (let kw = params @ [(''random_state'', PInt random_seed)]
                 in case init_error env cls kw of
                      Some e \<Rightarrow> Inl e
                    | None \<Rightarrow> Inr \<lparr>est_class = cls, est_kwargs = kw\<rparr>)))"

text \<open>The four constructions at the head of \<^verbatim>\<open>cv_res\<close>: RF, Ada, SVM, MLP.\<close>

definition cv_res_estimators ::
  "('x, 'y, 'g) sk_env \<Rightarrow> (string \<times> kwargs) list \<Rightarrow>
     error + (estimator \<times> estimator \<times> estimator \<times> estimator)" where
  "cv_res_estimators env best_params =
     (case seeded_estimator env RandomForestClassifier best_params ''RF'' of
        Inl e \<Rightarrow> Inl e
      | Inr RF \<Rightarrow>
     (case seeded_estimator env AdaBoostClassifier best_params ''AdaBoost'' of
        Inl e \<Rightarrow> Inl e
      | Inr Ada \<Rightarrow>
     (case seeded_estimator env SVC best_params ''SVC'' of
        Inl e \<Rightarrow> Inl e
      | Inr SVM \<Rightarrow>
     (case seeded_estimator env MLPClassifier best_params ''MLP'' of
        Inl e \<Rightarrow> Inl e
      | Inr MLP \<Rightarrow> Inr (RF, Ada, SVM, MLP)))))"

text \<open>The splitter \<^verbatim>\<open>cv\<close> that all four \<^verbatim>\<open>cross_val_score\<close> calls receive.\<close>

definition cv_res_cv :: cv_splitter where
  "cv_res_cv = \<lparr>n_splits = 10, n_repeats = 5, cv_random_state = Some random_seed\<rparr>"

text \<open>
  \<^verbatim>\<open>a.reshape(-1, k)\<close> on a one-dimensional array, for \<open>k > 0\<close>: rows of \<open>k\<close> consecutive
  elements, ValueError when the size is not a multiple of \<open>k\<close>.
\<close>

definition reshape_rows :: "nat \<Rightarrow> real list \<Rightarrow> error + real list list" where
  "reshape_rows k a =
     (if length a mod k \<noteq> 0 then Inl (ValueError ''cannot reshape array'')
      else Inr (map (\<lambda>r. take k (drop (r * k) a)) [0..<length a div k]))"

text \<open>\<^verbatim>\<open>np.mean(m, axis=1)\<close> on rows that are not empty.\<close>

definition mean_axis1 :: "real list list \<Rightarrow> real list" where
  "mean_axis1 m = map (\<lambda>row. sum_list row / real (length row)) m"

definition repeat_means :: "real list \<Rightarrow> error + real list" where
  "repeat_means scores =
     (case reshape_rows 10 scores of Inl e \<Rightarrow> Inl e | Inr m \<Rightarrow> Inr (mean_axis1 m))"

definition cv_res ::
  "('x, 'y, 'g) sk_env \<Rightarrow> 'x \<Rightarrow> 'y \<Rightarrow> (string \<times> kwargs) list \<Rightarrow> 'g \<Rightarrow>
     (error + (string \<times> real list) list) \<times> 'g" where
  "cv_res env Xs ys best_params g =
     (case cv_res_estimators env best_params of
        Inl e \<Rightarrow> (Inl e, g)
      | Inr (RF, Ada, SVM, MLP) \<Rightarrow>
     (let cv = cv_res_cv in
      case cross_val_score env MLP Xs ys cv (- 1) ''balanced_accuracy'' g of
        (Inl e, g1) \<Rightarrow> (Inl e, g1)
      | (Inr MLP_CV, g1) \<Rightarrow>
     (case cross_val_score env RF Xs ys cv (- 1) ''balanced_accuracy'' g1 of
        (Inl e, g2) \<Rightarrow> (Inl e, g2)
      | (Inr RF_CV, g2) \<Rightarrow>
     (case cross_val_score env Ada Xs ys cv (- 1) ''balanced_accuracy'' g2 of
        (Inl e, g3) \<Rightarrow> (Inl e, g3)
      | (Inr Ada_CV, g3) \<Rightarrow>
     (case cross_val_score env SVM Xs ys cv (- 1) ''balanced_accuracy'' g3 of
        (Inl e, g4) \<Rightarrow> (Inl e, g4)
      | (Inr SVC_CV, g4) \<Rightarrow>
     (case repeat_means RF_CV of
        Inl e \<Rightarrow> (Inl e, g4)
      | Inr rf \<Rightarrow>
     (case repeat_means Ada_CV of
        Inl e \<Rightarrow> (Inl e, g4)
      | Inr ada \<Rightarrow>
     (case repeat_means SVC_CV of
        Inl e \<Rightarrow> (Inl e, g4)
      | Inr svc \<Rightarrow>
     (case repeat_means MLP_CV of
        Inl e \<Rightarrow> (Inl e, g4)
      | Inr mlp \<Rightarrow>
          (Inr [(''RF'', rf), (''AdaBoost'', ada), (''SVC'', svc), (''MLP'', mlp)], g4))))))))))"

subsection \<open>What the notebook expects of an encoder\<close>

text \<open>
  The contract of the pretrained encoder that \<^verbatim>\<open>get_mean_rep\<close> relies on: for a non-empty
  input of at most \<open>max_ctx\<close> tokens the forward pass returns hidden states, and the
  single example's slice of the last one has one row per token and \<open>hidden_size\<close> columns.
\<close>

definition encoder_ok :: "model \<Rightarrow> bool" where
  "encoder_ok mdl \<longleftrightarrow>
     (\<forall>ids. ids \<noteq> [] \<and> length ids \<le> max_ctx mdl \<longrightarrow>
        (\<exists>hidden_states layer t.
           forward mdl ids = Inr hidden_states \<and> index_last hidden_states = Inr layer \<and>
           index_first layer = Inr t \<and> dim0 t = length ids \<and> dim1 t = hidden_size mdl))"

subsection \<open>What the notebook expects of scikit-learn\<close>

text \<open>
  An estimator is seeded when its constructor call gave an integer \<^verbatim>\<open>random_state\<close>. The
  library's contract for seeds: a cross-validation whose estimator and whose splitter are both
  seeded returns scores that do not depend on the ambient randomness.
\<close>

definition seeded :: "estimator \<Rightarrow> bool" where
  "seeded est = (case random_state_of est of Some (PInt s) \<Rightarrow> True | _ \<Rightarrow> False)"

definition seed_controlled :: "('x, 'y, 'g) sk_env \<Rightarrow> bool" where
  "seed_controlled env \<longleftrightarrow>
     (\<forall>est Xs ys cv n_jobs scoring g g'.
        seeded est \<and> cv_random_state cv \<noteq> None \<longrightarrow>
        fst (cross_val_score env est Xs ys cv n_jobs scoring g) =
        fst (cross_val_score env est Xs ys cv n_jobs scoring g'))"


subsection \<open>An example environment\<close>

text \<open>
  A small tokenizer, model and library environment on which the theorems below are run.
  The tokenizer frames the residues with a begin token 0 and an end token 2, as the ESM
  tokenizer does; the model has two hidden layers of width 2 and takes at most 4 tokens.
\<close>

definition example_tokenizer :: tokenizer where
  "example_tokenizer = \<lparr>encode = (\<lambda>s. Inr (0 # map (\<lambda>c. of_char c) s @ [2]))\<rparr>"

definition example_model :: model where
  "example_model =
     \<lparr>hidden_size = 2, max_ctx = 4,
      forward = (\<lambda>ids. if 4 < length ids then Inl (LibraryError ''sequence exceeds the context'')
                        else Inr [[\<lparr>dim0 = length ids, dim1 = 2, entry = (\<lambda>i j. 0)\<rparr>],
                                  [\<lparr>dim0 = length ids, dim1 = 2,
                                    entry = (\<lambda>i j. real (ids ! i) + real j)\<rparr>]])\<rparr>"

definition example_tables :: "string \<Rightarrow> error + dataframe" where
  "example_tables file =
     (if file = ''two.csv''
      then Inr \<lparr>col_names = [''sequence'', ''label''], col_data = [[''GA'', ''G''], [''1'', ''0'']]\<rparr>
      else if file =
        ''../data/data_for_substrate_tolerance_prediction/FusA_tolerance_dataset.csv''
      then Inr \<lparr>col_names = [''sequence'', ''label''], col_data = [[''G''], [''1'']]\<rparr>
      else if file = ''header_only.csv''
      then Inr \<lparr>col_names = [''sequence'', ''label''], col_data = [[], []]\<rparr>
      else if file = ''no_label.csv''
      then Inr \<lparr>col_names = [''sequence''], col_data = [[''GA'']]\<rparr>
      else if file = ''long.csv''
      then Inr \<lparr>col_names = [''sequence'', ''label''],
               col_data = [[''GA'', ''GAGAG'', ''G''], [''1'', ''0'', ''1'']]\<rparr>
      else Inl (LibraryError ''EmptyDataError: No columns to parse from file''))"

definition example_env :: hf_env where
  "example_env =
     \<lparr>from_pretrained_model = (\<lambda>path. Inr example_model),
      from_pretrained_tokenizer = (\<lambda>path. Inr example_tokenizer),
      read_csv = example_tables,
      save_fails = (\<lambda>file arr files. None)\<rparr>"

text \<open>
  For the evaluation notebook: the best parameters the notebook printed, and a library whose
  seeded cross-validations return the scores 0, 1, ..., one per fold, while the unseeded ones
  return scores read off the ambient state. Its grid search picks the first candidate of
  every parameter.
\<close>

definition example_best_params :: "(string \<times> kwargs) list" where
  "example_best_params =
     [(''RF'', [(''max_depth'', PInt 10), (''max_features'', PStr ''sqrt''),
               (''n_estimators'', PInt 50)]),
      (''AdaBoost'', [(''learning_rate'', PFloat (1 / 10)), (''n_estimators'', PInt 100)]),
      (''SVC'', [(''C'', PInt 1), (''kernel'', PStr ''linear'')]),
      (''MLP'', [(''batch_size'', PInt 32), (''early_stopping'', PBool True),
                (''hidden_layer_sizes'', PTuple [PInt 256, PInt 32]),
                (''learning_rate_init'', PFloat (1 / 1000)), (''max_iter'', PInt 1000)])]"

definition example_sk :: "(unit, unit, nat) sk_env" where
  "example_sk =
     \<lparr>init_error = (\<lambda>cls kw. None),
      cross_val_score = (\<lambda>est Xs ys cv n_jobs scoring g.
         if seeded est \<and> cv_random_state cv \<noteq> None
         then (Inr (map real [0..<n_splits cv * n_repeats cv]), Suc g)
         else (Inr (replicate (n_splits cv * n_repeats cv) (real g)), Suc g)),
      fit_best_params = (\<lambda>gs Xs ys g.
         (Inr (map (\<lambda>(k, candidates). (k, hd candidates)) (gs_param_grid gs)), Suc g))\<rparr>"


section \<open>Auxiliary facts\<close>

text \<open>What a successful step of \<^verbatim>\<open>process_embeddings\<close> returned.\<close>

lemma embed_all_Inr:
  "embed_all ss mdl tok = Inr vs \<Longrightarrow>
     length vs = length ss \<and> (\<forall>i<length ss. get_mean_rep (ss ! i) mdl tok = Inr (vs ! i))"
proof (induction ss arbitrary: vs)
  case Nil
  then show ?case by simp
next
  case (Cons s ss)
  from Cons.prems obtain v ws where
    v: "get_mean_rep s mdl tok = Inr v" and ws: "embed_all ss mdl tok = Inr ws" and
    vs: "vs = v # ws"
    by (auto split: sum.splits)
  from Cons.IH [OF ws] v vs show ?case
    by (auto simp: nth_Cons split: nat.splits)
qed

lemma embed_all_Inl:
  "s \<in> set ss \<Longrightarrow> get_mean_rep s mdl tok = Inl e \<Longrightarrow>
     \<exists>e' s'. s' \<in> set ss \<and> get_mean_rep s' mdl tok = Inl e' \<and> embed_all ss mdl tok = Inl e'"
proof (induction ss)
  case Nil
  then show ?case by simp
next
  case (Cons a ss)
  show ?case
  proof (cases "get_mean_rep a mdl tok")
    case (Inl e0)
    then show ?thesis by auto
  next
    case (Inr v)
    with Cons.prems have "s \<in> set ss" by auto
    from Cons.IH [OF this Cons.prems(2)] Inr show ?thesis by auto
  qed
qed

lemma np_array_Inr:
  "np_array vs = Inr arr \<Longrightarrow> arr_rows arr = vs \<and> hd (shape arr) = length vs"
  by (cases vs) (auto split: if_splits)

lemma np_array_shape:
  "np_array vs = Inr arr \<Longrightarrow> vs \<noteq> [] \<Longrightarrow> shape arr = [length vs, length (vs ! 0)]"
  by (cases vs) (auto split: if_splits)

lemma np_save_Inr:
  "np_save env file arr files = (Inr (), files') \<Longrightarrow> files' = files(file \<mapsto> arr)"
  by (auto simp: np_save_def split: option.splits)

lemma process_embeddings_Inr:
  assumes "process_embeddings env data_file model_name files = (Inr (), files')"
  shows "\<exists>cfg arr. map_of MODELS model_name = Some cfg \<and> files' = files(output_file cfg \<mapsto> arr)"
proof -
  from assms obtain cfg arr where
    c: "map_of MODELS model_name = Some cfg" and
    s: "np_save env (output_file cfg) arr files = (Inr (), files')"
    by (auto simp: process_embeddings_def split: option.splits sum.splits)
  from c np_save_Inr [OF s] show ?thesis
    by blast
qed

lemma main_Inr:
  assumes "main env files = (Inr (), files')"
  shows "\<exists>a b c. files' = files(''FusA_LassoESM.npy'' \<mapsto> a, ''FusA_VanillaESM.npy'' \<mapsto> b,
                               ''FusA_PeptideESM_650M.npy'' \<mapsto> c)"
proof -
  let ?f = "''../data/data_for_substrate_tolerance_prediction/FusA_tolerance_dataset.csv''"
  from assms obtain f1 f2 where
    1: "process_embeddings env ?f ''Lasso_ESM'' files = (Inr (), f1)" and
    2: "process_embeddings env ?f ''VanillaESM'' f1 = (Inr (), f2)" and
    3: "process_embeddings env ?f ''PeptideESM'' f2 = (Inr (), files')"
    by (auto simp: main_def Let_def MODELS_def split: prod.splits sum.splits)
  from process_embeddings_Inr [OF 1] obtain a where "f1 = files(''FusA_LassoESM.npy'' \<mapsto> a)"
    by (auto simp: MODELS_def)
  moreover from process_embeddings_Inr [OF 2] obtain b where "f2 = f1(''FusA_VanillaESM.npy'' \<mapsto> b)"
    by (auto simp: MODELS_def)
  moreover from process_embeddings_Inr [OF 3] obtain c where
    "files' = f2(''FusA_PeptideESM_650M.npy'' \<mapsto> c)"
    by (auto simp: MODELS_def)
  ultimately show ?thesis
    by blast
qed

text \<open>The example environment, evaluated.\<close>

lemma example_GA:
  "get_mean_rep ''GA'' example_model example_tokenizer = Inr [Fin (69 / 2), Fin (71 / 2)]"
  by (simp add: get_mean_rep_def example_model_def example_tokenizer_def index_last_def
      index_first_def mean_dim0_def upt_rec)

lemma example_G:
  "get_mean_rep ''G'' example_model example_tokenizer = Inr [Fin (73 / 3), Fin (76 / 3)]"
  by (simp add: get_mean_rep_def example_model_def example_tokenizer_def index_last_def
      index_first_def mean_dim0_def upt_rec)

lemma example_GAGAG:
  "get_mean_rep ''GAGAG'' example_model example_tokenizer =
     Inl (LibraryError ''sequence exceeds the context'')"
  by (simp add: get_mean_rep_def example_model_def example_tokenizer_def)

lemmas example_run =
  process_embeddings_def MODELS_def example_env_def example_tables_def iloc_col0_def
  example_GA example_G example_GAGAG np_save_def numeral_2_eq_2

lemma example_main:
  "main example_env [''FusA_VanillaESM.npy'' \<mapsto> \<lparr>shape = [0], arr_rows = []\<rparr>] =
     (Inr (), [''FusA_LassoESM.npy'' \<mapsto> \<lparr>shape = [1, 2], arr_rows = [[Fin (73 / 3), Fin (76 / 3)]]\<rparr>,
               ''FusA_VanillaESM.npy'' \<mapsto> \<lparr>shape = [1, 2], arr_rows = [[Fin (73 / 3), Fin (76 / 3)]]\<rparr>,
               ''FusA_PeptideESM_650M.npy'' \<mapsto> \<lparr>shape = [1, 2], arr_rows = [[Fin (73 / 3), Fin (76 / 3)]]\<rparr>])"
  by (simp add: main_def Let_def example_run fun_upd_twist)

text \<open>The pooled vector, as sums over the token positions.\<close>

lemma sum_list_upt: "sum_list (map f [0..<n]) = (\<Sum>i<n. f i)"
  by (simp add: interv_sum_list_conv_sum_set_nat atLeast0LessThan)

lemma mean_dim0_eq:
  "0 < dim0 t \<Longrightarrow>
     mean_dim0 t = map (\<lambda>j. Fin ((\<Sum>i<dim0 t. entry t i j) / real (dim0 t))) [0..<dim1 t]"
  by (simp add: mean_dim0_def sum_list_upt)

lemma sum_first_last:
  fixes f :: "nat \<Rightarrow> real"
  shows "(\<Sum>i<Suc (Suc n). f i) = f 0 + (\<Sum>i = 1..n. f i) + f (Suc n)"
proof -
  have "(\<Sum>i<Suc n. f i) = f 0 + (\<Sum>i = 1..n. f i)"
    by (simp add: lessThan_Suc_atMost atMost_atLeast0 sum.atLeast_Suc_atMost
        del: sum.lessThan_Suc)
  then show ?thesis
    by simp
qed

lemma mean_dim0_framed:
  assumes "dim0 t = Suc (Suc n)"
  shows "mean_dim0 t =
           map (\<lambda>j. Fin ((entry t 0 j + (\<Sum>i = 1..n. entry t i j) + entry t (Suc n) j)
                            / real (n + 2)))
               [0..<dim1 t]"
proof -
  have "0 < dim0 t"
    using assms by simp
  from mean_dim0_eq [OF this] show ?thesis
    unfolding assms sum_first_last by (simp add: add.commute)
qed

lemma length_mean_dim0: "length (mean_dim0 t) = dim1 t"
  by (simp add: mean_dim0_def)

lemma example_encoder_ok: "encoder_ok example_model"
  by (simp add: encoder_ok_def example_model_def index_last_def index_first_def)

text \<open>Reshaping and averaging the raw scores.\<close>

lemma sum_list_take_drop:
  fixes xs :: "real list"
  assumes "n + k \<le> length xs"
  shows "sum_list (take k (drop n xs)) = (\<Sum>i<k. xs ! (n + i))"
proof -
  have "sum_list (take k (drop n xs)) = (\<Sum>i = 0..<length (take k (drop n xs)). take k (drop n xs) ! i)"
    by (rule sum_list_sum_nth)
  also have "length (take k (drop n xs)) = k"
    using assms by simp
  also have "(\<Sum>i = 0..<k. take k (drop n xs) ! i) = (\<Sum>i = 0..<k. xs ! (n + i))"
    using assms by (intro sum.cong) auto
  finally show ?thesis
    by (simp add: atLeast0LessThan)
qed

lemma repeat_means_50:
  assumes "length scores = 50"
  shows "repeat_means scores =
           Inr (map (\<lambda>j. (\<Sum>k<10. scores ! (10 * j + k)) / 10) [0..<5])"
proof -
  have "sum_list (take 10 (drop (j * 10) scores)) /
          real (length (take 10 (drop (j * 10) scores))) =
        (\<Sum>k<10. scores ! (10 * j + k)) / 10" if "j < 5" for j
  proof -
    from that assms have b: "j * 10 + 10 \<le> length scores"
      by simp
    then have "length (take 10 (drop (j * 10) scores)) = 10"
      by simp
    moreover from sum_list_take_drop [OF b]
    have "sum_list (take 10 (drop (j * 10) scores)) = (\<Sum>k<10. scores ! (10 * j + k))"
      by (simp add: mult.commute)
    ultimately show ?thesis
      by simp
  qed
  then have "mean_axis1 (map (\<lambda>r. take 10 (drop (r * 10) scores)) [0..<5]) =
             map (\<lambda>j. (\<Sum>k<10. scores ! (10 * j + k)) / 10) [0..<5]"
    by (simp add: mean_axis1_def)
  with assms show ?thesis
    by (simp add: repeat_means_def reshape_rows_def)
qed

text \<open>The estimators of \<^verbatim>\<open>cv_res\<close> and one library call after the other.\<close>

lemma seeded_estimator_Inr:
  assumes "seeded_estimator env cls best_params name = Inr est"
  shows "est_class est = cls \<and> random_state_of est = Some (PInt 42) \<and> seeded est"
proof -
  from assms obtain params where
    p: "''random_state'' \<notin> set (map fst params)" and
    e: "est = \<lparr>est_class = cls, est_kwargs = params @ [(''random_state'', PInt random_seed)]\<rparr>"
    by (auto simp: seeded_estimator_def Let_def split: sum.splits if_splits option.splits)
  from p have "map_of params ''random_state'' = None"
    by (simp add: map_of_eq_None_iff)
  with e show ?thesis
    by (simp add: random_state_of_def seeded_def random_seed_def map_add_def)
qed

lemma cv_res_estimators_Inr:
  assumes "cv_res_estimators env best_params = Inr (RF, Ada, SVM, MLP)"
  shows "seeded_estimator env RandomForestClassifier best_params ''RF'' = Inr RF \<and>
         seeded_estimator env AdaBoostClassifier best_params ''AdaBoost'' = Inr Ada \<and>
         seeded_estimator env SVC best_params ''SVC'' = Inr SVM \<and>
         seeded_estimator env MLPClassifier best_params ''MLP'' = Inr MLP"
  using assms by (auto simp: cv_res_estimators_def split: sum.splits)

lemma seed_controlledD:
  "seed_controlled env \<Longrightarrow> seeded est \<Longrightarrow>
     fst (cross_val_score env est Xs ys cv_res_cv n_jobs scoring g) =
     fst (cross_val_score env est Xs ys cv_res_cv n_jobs scoring g')"
  unfolding seed_controlled_def by (simp add: cv_res_cv_def)

lemma call_step:
  fixes c :: "'g \<Rightarrow> (error + 'a) \<times> 'g" and k :: "'a \<Rightarrow> 'g \<Rightarrow> (error + 'b) \<times> 'g"
  assumes "fst (c g) = fst (c g')"
    and "\<And>v h h'. fst (k v h) = fst (k v h')"
  shows "fst (case c g of (Inl e, h) \<Rightarrow> (Inl e, h) | (Inr v, h) \<Rightarrow> k v h) =
         fst (case c g' of (Inl e, h) \<Rightarrow> (Inl e, h) | (Inr v, h) \<Rightarrow> k v h)"
proof -
  obtain r h where a: "c g = (r, h)"
    by (cases "c g")
  obtain r' h' where b: "c g' = (r', h')"
    by (cases "c g'")
  from assms(1) a b have "r' = r"
    by simp
  with a b assms(2) show ?thesis
    by (cases r) auto
qed

text \<open>
  \<^verbatim>\<open>cv_res\<close> reads the library only at estimators seeded with 42 and the splitter
  \<open>cv_res_cv\<close>.
\<close>

lemma seeded_estimator_cong:
  assumes "init_error env' = init_error env"
  shows "seeded_estimator env' cls best_params name = seeded_estimator env cls best_params name"
  unfolding seeded_estimator_def assms ..

lemma cv_res_estimators_cong:
  assumes "init_error env' = init_error env"
  shows "cv_res_estimators env' best_params = cv_res_estimators env best_params"
  unfolding cv_res_estimators_def seeded_estimator_cong [OF assms] ..

lemma call_step_eq:
  fixes c :: "'g \<Rightarrow> (error + 'a) \<times> 'g" and k :: "'a \<Rightarrow> 'g \<Rightarrow> (error + 'b) \<times> 'g"
  assumes "c' g = c g"
    and "\<And>v h. k' v h = k v h"
  shows "(case c' g of (Inl e, h) \<Rightarrow> (Inl e, h) | (Inr v, h) \<Rightarrow> k' v h) =
         (case c g of (Inl e, h) \<Rightarrow> (Inl e, h) | (Inr v, h) \<Rightarrow> k v h)"
proof -
  from assms(2) have "k' = k"
    by (intro ext)
  show ?thesis
    unfolding assms(1) \<open>k' = k\<close> ..
qed

lemma cv_res_cong:
  assumes i: "init_error env' = init_error env"
    and c: "\<And>est h. random_state_of est = Some (PInt 42) \<Longrightarrow>
              cross_val_score env' est Xs ys cv_res_cv (- 1) ''balanced_accuracy'' h =
              cross_val_score env est Xs ys cv_res_cv (- 1) ''balanced_accuracy'' h"
  shows "cv_res env' Xs ys best_params g = cv_res env Xs ys best_params g"
proof (cases "cv_res_estimators env best_params")
  case (Inl e)
  with cv_res_estimators_cong [OF i] show ?thesis
    by (simp add: cv_res_def)
next
  case (Inr ests)
  obtain RF Ada SVM MLP where ests: "ests = (RF, Ada, SVM, MLP)"
    by (cases ests) auto
  from cv_res_estimators_Inr [OF Inr [unfolded ests]] seeded_estimator_Inr
  have s: "random_state_of RF = Some (PInt 42)" "random_state_of Ada = Some (PInt 42)"
    "random_state_of SVM = Some (PInt 42)" "random_state_of MLP = Some (PInt 42)"
    by blast+
  from cv_res_estimators_cong [OF i] Inr ests
  have e': "cv_res_estimators env' best_params = Inr (RF, Ada, SVM, MLP)"
    by simp
  show ?thesis
    unfolding cv_res_def Inr e' ests sum.case prod.case Let_def
    apply (rule call_step_eq [OF c [OF s(4)]])
    apply (rule call_step_eq [OF c [OF s(1)]])
    apply (rule call_step_eq [OF c [OF s(2)]])
    apply (rule call_step_eq [OF c [OF s(3)]])
    apply (rule refl)
    done
qed

text \<open>The example library, evaluated.\<close>

lemma example_scores_means:
  "repeat_means (map real [0..<50]) = Inr [9 / 2, 29 / 2, 49 / 2, 69 / 2, 89 / 2]"
  by (simp add: repeat_means_def reshape_rows_def mean_axis1_def upt_rec take_map drop_map)

lemma example_sk_seed_controlled: "seed_controlled example_sk"
  by (simp add: seed_controlled_def example_sk_def)

lemma example_estimators:
  "cv_res_estimators example_sk example_best_params =
     Inr (\<lparr>est_class = RandomForestClassifier,
           est_kwargs = [(''max_depth'', PInt 10), (''max_features'', PStr ''sqrt''),
                         (''n_estimators'', PInt 50), (''random_state'', PInt 42)]\<rparr>,
          \<lparr>est_class = AdaBoostClassifier,
           est_kwargs = [(''learning_rate'', PFloat (1 / 10)), (''n_estimators'', PInt 100),
                         (''random_state'', PInt 42)]\<rparr>,
          \<lparr>est_class = SVC,
           est_kwargs = [(''C'', PInt 1), (''kernel'', PStr ''linear''),
                         (''random_state'', PInt 42)]\<rparr>,
          \<lparr>est_class = MLPClassifier,
           est_kwargs = [(''batch_size'', PInt 32), (''early_stopping'', PBool True),
                         (''hidden_layer_sizes'', PTuple [PInt 256, PInt 32]),
                         (''learning_rate_init'', PFloat (1 / 1000)), (''max_iter'', PInt 1000),
                         (''random_state'', PInt 42)]\<rparr>)"
  by (simp add: cv_res_estimators_def seeded_estimator_def getitem_def example_best_params_def
      example_sk_def random_seed_def)

lemma example_cv_res:
  "fst (cv_res example_sk () () example_best_params g) =
     Inr [(''RF'', [9 / 2, 29 / 2, 49 / 2, 69 / 2, 89 / 2]),
          (''AdaBoost'', [9 / 2, 29 / 2, 49 / 2, 69 / 2, 89 / 2]),
          (''SVC'', [9 / 2, 29 / 2, 49 / 2, 69 / 2, 89 / 2]),
          (''MLP'', [9 / 2, 29 / 2, 49 / 2, 69 / 2, 89 / 2])]"
proof -
  have c: "cross_val_score example_sk est () () cv_res_cv n_jobs scoring h =
             (Inr (map real [0..<50]), Suc h)"
    if "random_state_of est = Some (PInt 42)" for est n_jobs scoring h
    using that by (simp add: example_sk_def seeded_def cv_res_cv_def)
  show ?thesis
    by (simp add: cv_res_def example_estimators c random_state_of_def example_scores_means)
qed







section \<open>The properties\<close>

text \<open>
  Claim C1. Whenever \<^verbatim>\<open>process_embeddings\<close> completes on a table whose first column is a
  non-empty list of sequences, the file system afterwards differs from the one before only at
  the configured output file, which holds a matrix with one row per sequence: its shape is
  (number of sequences, row length), and row \<open>i\<close> is what \<^verbatim>\<open>get_mean_rep\<close> returns for
  sequence \<open>i\<close> of the column, in file order.
\<close>

theorem process_embeddings_rows:
  assumes "map_of MODELS model_name = Some cfg"
    and "from_pretrained_model env (model_path cfg) = Inr mdl"
    and "from_pretrained_tokenizer env (model_path cfg) = Inr tok"
    and "read_csv env data_file = Inr data"
    and "iloc_col0 data = Inr seq_ls"
    and "seq_ls \<noteq> []"
    and "process_embeddings env data_file model_name files = (Inr (), files')"
  shows "\<exists>arr. files' = files(output_file cfg \<mapsto> arr) \<and>
           length (arr_rows arr) = length seq_ls \<and>
           shape arr = [length seq_ls, length (arr_rows arr ! 0)] \<and>
           (\<forall>i<length seq_ls. get_mean_rep (seq_ls ! i) mdl tok = Inr (arr_rows arr ! i))"
proof -
  from assms obtain seq_embs arr where
    e: "embed_all seq_ls mdl tok = Inr seq_embs" and a: "np_array seq_embs = Inr arr" and
    s: "np_save env (output_file cfg) arr files = (Inr (), files')"
    by (auto simp: process_embeddings_def split: sum.splits)
  from embed_all_Inr [OF e] \<open>seq_ls \<noteq> []\<close> have "seq_embs \<noteq> []"
    by auto
  from embed_all_Inr [OF e] np_array_Inr [OF a] np_array_shape [OF a this] np_save_Inr [OF s]
  show ?thesis
    by auto
qed

theorem process_embeddings_rows_witness:
  "process_embeddings example_env ''two.csv'' ''VanillaESM'' Map.empty =
     (Inr (), [''FusA_VanillaESM.npy'' \<mapsto>
                \<lparr>shape = [2, 2],
                 arr_rows = [[Fin (69 / 2), Fin (71 / 2)], [Fin (73 / 3), Fin (76 / 3)]]\<rparr>]) \<and>
   (\<exists>arr. [''FusA_VanillaESM.npy'' \<mapsto>
             \<lparr>shape = [2, 2],
              arr_rows = [[Fin (69 / 2), Fin (71 / 2)], [Fin (73 / 3), Fin (76 / 3)]]\<rparr>]
           = Map.empty(''FusA_VanillaESM.npy'' \<mapsto> arr) \<and>
          length (arr_rows arr) = 2 \<and>
          shape arr = [2, length (arr_rows arr ! 0)] \<and>
          get_mean_rep ''GA'' example_model example_tokenizer = Inr (arr_rows arr ! 0) \<and>
          get_mean_rep ''G'' example_model example_tokenizer = Inr (arr_rows arr ! 1))"
proof -
  let ?cfg = "\<lparr>model_path = ''facebook/esm2_t33_650M_UR50D'',
               output_file = ''FusA_VanillaESM.npy''\<rparr>"
  let ?data = "\<lparr>col_names = [''sequence'', ''label''],
                col_data = [[''GA'', ''G''], [''1'', ''0'']]\<rparr>"
  let ?files = "[''FusA_VanillaESM.npy'' \<mapsto>
                \<lparr>shape = [2, 2],
                 arr_rows = [[Fin (69 / 2), Fin (71 / 2)], [Fin (73 / 3), Fin (76 / 3)]]\<rparr>]"
  have h1: "map_of MODELS ''VanillaESM'' = Some ?cfg"
    by (simp add: MODELS_def)
  have h2: "from_pretrained_model example_env (model_path ?cfg) = Inr example_model"
    by (simp add: example_env_def)
  have h3: "from_pretrained_tokenizer example_env (model_path ?cfg) = Inr example_tokenizer"
    by (simp add: example_env_def)
  have h4: "read_csv example_env ''two.csv'' = Inr ?data"
    by (simp add: example_env_def example_tables_def)
  have h5: "iloc_col0 ?data = Inr [''GA'', ''G'']"
    by (simp add: iloc_col0_def)
  have h6: "[''GA'', ''G''] \<noteq> []"
    by simp
  have h7: "process_embeddings example_env ''two.csv'' ''VanillaESM'' Map.empty = (Inr (), ?files)"
    by (simp add: example_run numeral_2_eq_2)
  from process_embeddings_rows [OF h1 h2 h3 h4 h5 h6 h7] obtain arr where
    "?files = Map.empty(output_file ?cfg \<mapsto> arr)"
    "length (arr_rows arr) = length [''GA'', ''G'']"
    "shape arr = [length [''GA'', ''G''], length (arr_rows arr ! 0)]"
    "\<forall>i<length [''GA'', ''G'']. get_mean_rep ([''GA'', ''G''] ! i) example_model example_tokenizer
        = Inr (arr_rows arr ! i)"
    by blast
  then have "?files = Map.empty(''FusA_VanillaESM.npy'' \<mapsto> arr) \<and>
          length (arr_rows arr) = 2 \<and>
          shape arr = [2, length (arr_rows arr ! 0)] \<and>
          get_mean_rep ''GA'' example_model example_tokenizer = Inr (arr_rows arr ! 0) \<and>
          get_mean_rep ''G'' example_model example_tokenizer = Inr (arr_rows arr ! 1)"
    by (auto simp del: fun_upd_apply)
  with h7 show ?thesis
    by blast
qed

text \<open>
  Claim C2. For an encoder that meets its contract and a sequence whose tokens fit the
  model's maximum context, \<^verbatim>\<open>get_mean_rep\<close> returns a vector: it reads the last hidden
  state, of shape (token count, hidden size), and component \<open>j\<close> of the result is the
  arithmetic mean of column \<open>j\<close> over the token axis. The vector's length is the model's
  hidden size, whatever the length of the sequence.
\<close>

theorem get_mean_rep_hidden_size:
  assumes "encoder_ok mdl"
    and "encode tok sequence = Inr ids"
    and "ids \<noteq> []"
    and "length ids \<le> max_ctx mdl"
  shows "\<exists>hidden_states layer t v.
           forward mdl ids = Inr hidden_states \<and> index_last hidden_states = Inr layer \<and>
           index_first layer = Inr t \<and> dim0 t = length ids \<and> dim1 t = hidden_size mdl \<and>
           get_mean_rep sequence mdl tok = Inr v \<and>
           length v = hidden_size mdl \<and>
           (\<forall>j<hidden_size mdl. v ! j = Fin ((\<Sum>i<length ids. entry t i j) / real (length ids)))"
proof -
  from assms obtain hidden_states layer t where
    f: "forward mdl ids = Inr hidden_states" and l: "index_last hidden_states = Inr layer" and
    t: "index_first layer = Inr t" and d0: "dim0 t = length ids" and
    d1: "dim1 t = hidden_size mdl"
    unfolding encoder_ok_def by blast
  from assms(2) f l t have g: "get_mean_rep sequence mdl tok = Inr (mean_dim0 t)"
    by (simp add: get_mean_rep_def)
  from \<open>ids \<noteq> []\<close> d0 have "0 < dim0 t"
    by simp
  from mean_dim0_eq [OF this] d0 d1
  have "\<forall>j<hidden_size mdl.
          mean_dim0 t ! j = Fin ((\<Sum>i<length ids. entry t i j) / real (length ids))"
    by simp
  with f l t d0 d1 g length_mean_dim0 [of t] show ?thesis
    by auto
qed

theorem get_mean_rep_hidden_size_witness:
  "encoder_ok example_model \<and>
   encode example_tokenizer ''GA'' = Inr [0, 71, 65, 2] \<and>
   length [0, 71, 65, 2 :: nat] \<le> max_ctx example_model \<and>
   encode example_tokenizer ''G'' = Inr [0, 71, 2] \<and>
   (\<exists>v. get_mean_rep ''GA'' example_model example_tokenizer = Inr v \<and>
        length v = hidden_size example_model) \<and>
   (\<exists>v. get_mean_rep ''G'' example_model example_tokenizer = Inr v \<and>
        length v = hidden_size example_model) \<and>
   hidden_size example_model = 2"
proof -
  have e1: "encode example_tokenizer ''GA'' = Inr [0, 71, 65, 2]"
    by (simp add: example_tokenizer_def)
  have e2: "encode example_tokenizer ''G'' = Inr [0, 71, 2]"
    by (simp add: example_tokenizer_def)
  have n1: "[0, 71, 65, 2 :: nat] \<noteq> []" and n2: "[0, 71, 2 :: nat] \<noteq> []"
    by simp_all
  have c1: "length [0, 71, 65, 2 :: nat] \<le> max_ctx example_model"
    by (simp add: example_model_def)
  have c2: "length [0, 71, 2 :: nat] \<le> max_ctx example_model"
    by (simp add: example_model_def)
  from get_mean_rep_hidden_size [OF example_encoder_ok e1 n1 c1]
  have r1: "\<exists>v. get_mean_rep ''GA'' example_model example_tokenizer = Inr v \<and>
        length v = hidden_size example_model"
    by blast
  from get_mean_rep_hidden_size [OF example_encoder_ok e2 n2 c2]
  have r2: "\<exists>v. get_mean_rep ''G'' example_model example_tokenizer = Inr v \<and>
        length v = hidden_size example_model"
    by blast
  have "hidden_size example_model = 2"
    by (simp add: example_model_def)
  with example_encoder_ok e1 e2 c1 r1 r2 show ?thesis
    by blast
qed

text \<open>
  Claim C3. \<^verbatim>\<open>process_embeddings\<close> is all-or-nothing in what it saves. When the model
  and the table were loaded and \<^verbatim>\<open>get_mean_rep\<close> raises for some sequence of the list,
  the call ends with the exception of the first such sequence and the file system is the
  one it started with: \<^verbatim>\<open>np.save\<close> is not reached, so no truncated matrix is written.
\<close>

theorem process_embeddings_all_or_nothing:
  assumes "map_of MODELS model_name = Some cfg"
    and "from_pretrained_model env (model_path cfg) = Inr mdl"
    and "from_pretrained_tokenizer env (model_path cfg) = Inr tok"
    and "read_csv env data_file = Inr data"
    and "iloc_col0 data = Inr seq_ls"
    and "s \<in> set seq_ls"
    and "get_mean_rep s mdl tok = Inl e"
  shows "\<exists>e' s'. s' \<in> set seq_ls \<and> get_mean_rep s' mdl tok = Inl e' \<and>
           process_embeddings env data_file model_name files = (Inl e', files)"
proof -
  from embed_all_Inl [OF assms(6,7)] obtain e' s' where
    "s' \<in> set seq_ls" "get_mean_rep s' mdl tok = Inl e'" "embed_all seq_ls mdl tok = Inl e'"
    by blast
  with assms(1-5) show ?thesis
    by (auto simp: process_embeddings_def)
qed

theorem process_embeddings_all_or_nothing_witness:
  "''GAGAG'' \<in> set [''GA'', ''GAGAG'', ''G''] \<and>
   get_mean_rep ''GAGAG'' example_model example_tokenizer =
     Inl (LibraryError ''sequence exceeds the context'') \<and>
   process_embeddings example_env ''long.csv'' ''VanillaESM''
       [''FusA_VanillaESM.npy'' \<mapsto> \<lparr>shape = [0], arr_rows = []\<rparr>] =
     (Inl (LibraryError ''sequence exceeds the context''),
      [''FusA_VanillaESM.npy'' \<mapsto> \<lparr>shape = [0], arr_rows = []\<rparr>])"
proof -
  let ?cfg = "\<lparr>model_path = ''facebook/esm2_t33_650M_UR50D'',
               output_file = ''FusA_VanillaESM.npy''\<rparr>"
  let ?data = "\<lparr>col_names = [''sequence'', ''label''],
                col_data = [[''GA'', ''GAGAG'', ''G''], [''1'', ''0'', ''1'']]\<rparr>"
  let ?files = "[''FusA_VanillaESM.npy'' \<mapsto> \<lparr>shape = [0], arr_rows = []\<rparr>]"
  have h1: "map_of MODELS ''VanillaESM'' = Some ?cfg"
    by (simp add: MODELS_def)
  have h2: "from_pretrained_model example_env (model_path ?cfg) = Inr example_model"
    by (simp add: example_env_def)
  have h3: "from_pretrained_tokenizer example_env (model_path ?cfg) = Inr example_tokenizer"
    by (simp add: example_env_def)
  have h4: "read_csv example_env ''long.csv'' = Inr ?data"
    by (simp add: example_env_def example_tables_def)
  have h5: "iloc_col0 ?data = Inr [''GA'', ''GAGAG'', ''G'']"
    by (simp add: iloc_col0_def)
  have h6: "''GAGAG'' \<in> set [''GA'', ''GAGAG'', ''G'']"
    by simp
  from process_embeddings_all_or_nothing [OF h1 h2 h3 h4 h5 h6 example_GAGAG, of ?files]
  obtain e' s' where
    s': "s' \<in> set [''GA'', ''GAGAG'', ''G'']" and
    e': "get_mean_rep s' example_model example_tokenizer = Inl e'" and
    r: "process_embeddings example_env ''long.csv'' ''VanillaESM'' ?files = (Inl e', ?files)"
    by blast
  from s' e' have "e' = LibraryError ''sequence exceeds the context''"
    by (auto simp: example_GA example_G example_GAGAG)
  with r h6 example_GAGAG show ?thesis
    by simp
qed

text \<open>
  Claim C4. For a model name that is not a key of \<^verbatim>\<open>MODELS\<close>, \<^verbatim>\<open>process_embeddings\<close>
  raises the configuration error, a \<^verbatim>\<open>ValueError\<close> whose message names the unknown model and
  lists the configured ones, and the file system is unchanged: nothing is created or
  modified. This holds whatever the libraries would have done.
\<close>

theorem process_embeddings_unknown_model:
  assumes "model_name \<notin> set (map fst MODELS)"
  shows "process_embeddings env data_file model_name files =
           (Inl (ValueError (''Model '' @ model_name @
              '' not configured. Available models: ['Lasso_ESM', 'VanillaESM', 'PeptideESM']'')),
            files)"
proof -
  from assms have "map_of MODELS model_name = None"
    by (simp add: map_of_eq_None_iff)
  then show ?thesis
    by (simp add: process_embeddings_def not_configured_def list_repr_def str_repr_def MODELS_def)
qed

theorem process_embeddings_unknown_model_witness:
  "''ESM3'' \<notin> set (map fst MODELS) \<and>
   process_embeddings example_env ''two.csv'' ''ESM3''
       [''FusA_VanillaESM.npy'' \<mapsto> \<lparr>shape = [0], arr_rows = []\<rparr>] =
     (Inl (ValueError
        ''Model ESM3 not configured. Available models: ['Lasso_ESM', 'VanillaESM', 'PeptideESM']''),
      [''FusA_VanillaESM.npy'' \<mapsto> \<lparr>shape = [0], arr_rows = []\<rparr>])"
proof -
  have h: "''ESM3'' \<notin> set (map fst MODELS)"
    by (simp add: MODELS_def)
  from process_embeddings_unknown_model [OF h, of example_env "''two.csv''"
      "[''FusA_VanillaESM.npy'' \<mapsto> \<lparr>shape = [0], arr_rows = []\<rparr>]"] h
  show ?thesis
    by simp
qed

text \<open>
  Claim C5. When each of the four \<^verbatim>\<open>cross_val_score\<close> calls of \<^verbatim>\<open>cv_res\<close> returns 50 raw
  per-fold scores, \<^verbatim>\<open>cv_res\<close> returns for every family exactly 5 values, and value \<open>j\<close>
  is the arithmetic mean of the ten consecutive scores of that family at indices
  \<open>10 * j\<close> to \<open>10 * j + 9\<close>. The reshaping step on its own (\<^verbatim>\<open>reshape(-1, 10)\<close>, then
  the mean over axis 1) does this for every sequence of 50 scores.
\<close>

theorem cv_res_groups_of_ten:
  assumes "cv_res_estimators env best_params = Inr (RF, Ada, SVM, MLP)"
    and "cross_val_score env MLP Xs ys cv_res_cv (- 1) ''balanced_accuracy'' g = (Inr MLP_CV, g1)"
    and "cross_val_score env RF Xs ys cv_res_cv (- 1) ''balanced_accuracy'' g1 = (Inr RF_CV, g2)"
    and "cross_val_score env Ada Xs ys cv_res_cv (- 1) ''balanced_accuracy'' g2 = (Inr Ada_CV, g3)"
    and "cross_val_score env SVM Xs ys cv_res_cv (- 1) ''balanced_accuracy'' g3 = (Inr SVC_CV, g4)"
    and "length RF_CV = 50" and "length Ada_CV = 50"
    and "length SVC_CV = 50" and "length MLP_CV = 50"
  shows "cv_res env Xs ys best_params g =
           (Inr [(''RF'', map (\<lambda>j. (\<Sum>k<10. RF_CV ! (10 * j + k)) / 10) [0..<5]),
                 (''AdaBoost'', map (\<lambda>j. (\<Sum>k<10. Ada_CV ! (10 * j + k)) / 10) [0..<5]),
                 (''SVC'', map (\<lambda>j. (\<Sum>k<10. SVC_CV ! (10 * j + k)) / 10) [0..<5]),
                 (''MLP'', map (\<lambda>j. (\<Sum>k<10. MLP_CV ! (10 * j + k)) / 10) [0..<5])],
            g4) \<and>
         (\<forall>scores. length scores = 50 \<longrightarrow>
            (\<exists>out. repeat_means scores = Inr out \<and> length out = 5 \<and>
               (\<forall>j<5. out ! j = (\<Sum>k<10. scores ! (10 * j + k)) / 10)))"
proof -
  from assms have "cv_res env Xs ys best_params g =
           (Inr [(''RF'', map (\<lambda>j. (\<Sum>k<10. RF_CV ! (10 * j + k)) / 10) [0..<5]),
                 (''AdaBoost'', map (\<lambda>j. (\<Sum>k<10. Ada_CV ! (10 * j + k)) / 10) [0..<5]),
                 (''SVC'', map (\<lambda>j. (\<Sum>k<10. SVC_CV ! (10 * j + k)) / 10) [0..<5]),
                 (''MLP'', map (\<lambda>j. (\<Sum>k<10. MLP_CV ! (10 * j + k)) / 10) [0..<5])],
            g4)"
    by (simp add: cv_res_def repeat_means_50)
  moreover have "\<exists>out. repeat_means scores = Inr out \<and> length out = 5 \<and>
               (\<forall>j<5. out ! j = (\<Sum>k<10. scores ! (10 * j + k)) / 10)"
    if "length scores = 50" for scores
    using repeat_means_50 [OF that] by simp
  ultimately show ?thesis
    by blast
qed

theorem cv_res_groups_of_ten_witness:
  "cv_res example_sk () () example_best_params 0 =
     (Inr [(''RF'', map (\<lambda>j. (\<Sum>k<10. map real [0..<50] ! (10 * j + k)) / 10) [0..<5]),
           (''AdaBoost'', map (\<lambda>j. (\<Sum>k<10. map real [0..<50] ! (10 * j + k)) / 10) [0..<5]),
           (''SVC'', map (\<lambda>j. (\<Sum>k<10. map real [0..<50] ! (10 * j + k)) / 10) [0..<5]),
           (''MLP'', map (\<lambda>j. (\<Sum>k<10. map real [0..<50] ! (10 * j + k)) / 10) [0..<5])],
      4) \<and>
   cv_res example_sk () () example_best_params 0 =
     (Inr [(''RF'', [9 / 2, 29 / 2, 49 / 2, 69 / 2, 89 / 2]),
           (''AdaBoost'', [9 / 2, 29 / 2, 49 / 2, 69 / 2, 89 / 2]),
           (''SVC'', [9 / 2, 29 / 2, 49 / 2, 69 / 2, 89 / 2]),
           (''MLP'', [9 / 2, 29 / 2, 49 / 2, 69 / 2, 89 / 2])],
      4) \<and>
   (\<exists>out. repeat_means (map real [0..<50]) = Inr out \<and> length out = 5 \<and>
      out ! 0 = (\<Sum>k<10. map real [0..<50] ! (10 * 0 + k)) / 10 \<and>
      out ! 4 = (\<Sum>k<10. map real [0..<50] ! (10 * 4 + k)) / 10)"
proof -
  let ?RF = "\<lparr>est_class = RandomForestClassifier,
           est_kwargs = [(''max_depth'', PInt 10), (''max_features'', PStr ''sqrt''),
                         (''n_estimators'', PInt 50), (''random_state'', PInt 42)]\<rparr>"
  let ?Ada = "\<lparr>est_class = AdaBoostClassifier,
           est_kwargs = [(''learning_rate'', PFloat (1 / 10)), (''n_estimators'', PInt 100),
                         (''random_state'', PInt 42)]\<rparr>"
  let ?SVM = "\<lparr>est_class = SVC,
           est_kwargs = [(''C'', PInt 1), (''kernel'', PStr ''linear''),
                         (''random_state'', PInt 42)]\<rparr>"
  let ?MLP = "\<lparr>est_class = MLPClassifier,
           est_kwargs = [(''batch_size'', PInt 32), (''early_stopping'', PBool True),
                         (''hidden_layer_sizes'', PTuple [PInt 256, PInt 32]),
                         (''learning_rate_init'', PFloat (1 / 1000)), (''max_iter'', PInt 1000),
                         (''random_state'', PInt 42)]\<rparr>"
  have c: "cross_val_score example_sk est () () cv_res_cv (- 1) ''balanced_accuracy'' h =
             (Inr (map real [0..<50]), Suc h)"
    if "random_state_of est = Some (PInt 42)" for est h
    using that by (simp add: example_sk_def seeded_def cv_res_cv_def)
  have c1: "cross_val_score example_sk ?MLP () () cv_res_cv (- 1) ''balanced_accuracy'' 0 =
             (Inr (map real [0..<50]), 1)"
    and c2: "cross_val_score example_sk ?RF () () cv_res_cv (- 1) ''balanced_accuracy'' 1 =
             (Inr (map real [0..<50]), 2)"
    and c3: "cross_val_score example_sk ?Ada () () cv_res_cv (- 1) ''balanced_accuracy'' 2 =
             (Inr (map real [0..<50]), 3)"
    and c4: "cross_val_score example_sk ?SVM () () cv_res_cv (- 1) ''balanced_accuracy'' 3 =
             (Inr (map real [0..<50]), 4)"
    by (simp_all add: c random_state_of_def)
  have l: "length (map real [0..<50]) = 50"
    by simp
  note t = cv_res_groups_of_ten [OF example_estimators c1 c2 c3 c4 l l l l]
  from t have a: "cv_res example_sk () () example_best_params 0 =
     (Inr [(''RF'', map (\<lambda>j. (\<Sum>k<10. map real [0..<50] ! (10 * j + k)) / 10) [0..<5]),
           (''AdaBoost'', map (\<lambda>j. (\<Sum>k<10. map real [0..<50] ! (10 * j + k)) / 10) [0..<5]),
           (''SVC'', map (\<lambda>j. (\<Sum>k<10. map real [0..<50] ! (10 * j + k)) / 10) [0..<5]),
           (''MLP'', map (\<lambda>j. (\<Sum>k<10. map real [0..<50] ! (10 * j + k)) / 10) [0..<5])],
      4)"
    by (rule conjunct1)
  then have "snd (cv_res example_sk () () example_best_params 0) = 4"
    by (simp only: snd_conv)
  with example_cv_res [of 0]
  have b: "cv_res example_sk () () example_best_params 0 =
     (Inr [(''RF'', [9 / 2, 29 / 2, 49 / 2, 69 / 2, 89 / 2]),
           (''AdaBoost'', [9 / 2, 29 / 2, 49 / 2, 69 / 2, 89 / 2]),
           (''SVC'', [9 / 2, 29 / 2, 49 / 2, 69 / 2, 89 / 2]),
           (''MLP'', [9 / 2, 29 / 2, 49 / 2, 69 / 2, 89 / 2])],
      4)"
    by (simp only: prod_eq_iff fst_conv snd_conv simp_thms)
  from t l obtain out where
    r: "repeat_means (map real [0..<50]) = Inr out" and n: "length out = 5" and
    m: "\<forall>j<5. out ! j = (\<Sum>k<10. map real [0..<50] ! (10 * j + k)) / 10"
    by blast
  have "(0::nat) < 5" and "(4::nat) < 5"
    by simp_all
  then have "out ! 0 = (\<Sum>k<10. map real [0..<50] ! (10 * 0 + k)) / 10"
    and "out ! 4 = (\<Sum>k<10. map real [0..<50] ! (10 * 4 + k)) / 10"
    using m by blast+
  with a b r n show ?thesis
    by blast
qed

text \<open>
  Claim C6. Every \<^verbatim>\<open>cross_val_score\<close> call of \<^verbatim>\<open>cv_res\<close> is given an estimator seeded
  with 42 and the one splitter \<open>cv_res_cv\<close>, ten folds and five repeats seeded with 42:
  two libraries that agree on such calls (and on the constructors' checks) give the same
  \<^verbatim>\<open>cv_res\<close>. So, for a library that honours seeds, the result of \<^verbatim>\<open>cv_res\<close> (the values
  of all four families, or the exception) is the same for every state of the ambient
  randomness: two runs on the same matrix, labels and best parameters agree.
\<close>

theorem cv_res_deterministic:
  assumes "seed_controlled env"
  shows "fst (cv_res env Xs ys best_params g) = fst (cv_res env Xs ys best_params g') \<and>
         cv_res_cv = \<lparr>n_splits = 10, n_repeats = 5, cv_random_state = Some 42\<rparr> \<and>
         (\<forall>env'.
            init_error env' = init_error env \<and>
            (\<forall>est h. random_state_of est = Some (PInt 42) \<longrightarrow>
               cross_val_score env' est Xs ys cv_res_cv (- 1) ''balanced_accuracy'' h =
               cross_val_score env est Xs ys cv_res_cv (- 1) ''balanced_accuracy'' h) \<longrightarrow>
            cv_res env' Xs ys best_params g = cv_res env Xs ys best_params g)"
proof -
  have "fst (cv_res env Xs ys best_params g) = fst (cv_res env Xs ys best_params g')"
  proof (cases "cv_res_estimators env best_params")
    case (Inl e)
    then show ?thesis
      by (simp add: cv_res_def)
  next
    case (Inr ests)
    obtain RF Ada SVM MLP where ests: "ests = (RF, Ada, SVM, MLP)"
      by (cases ests) auto
    from cv_res_estimators_Inr [OF Inr [unfolded ests]] seeded_estimator_Inr
    have s: "seeded RF" "seeded Ada" "seeded SVM" "seeded MLP"
      by blast+
    note d = seed_controlledD [OF assms]
    show ?thesis
      unfolding cv_res_def Inr ests sum.case prod.case Let_def
      by (intro call_step d s) (simp split: sum.splits)
  qed
  moreover have "cv_res_cv = \<lparr>n_splits = 10, n_repeats = 5, cv_random_state = Some 42\<rparr>"
    by (simp add: cv_res_cv_def random_seed_def)
  moreover have "cv_res env' Xs ys best_params g = cv_res env Xs ys best_params g"
    if "init_error env' = init_error env \<and>
        (\<forall>est h. random_state_of est = Some (PInt 42) \<longrightarrow>
           cross_val_score env' est Xs ys cv_res_cv (- 1) ''balanced_accuracy'' h =
           cross_val_score env est Xs ys cv_res_cv (- 1) ''balanced_accuracy'' h)" for env'
    using that by (intro cv_res_cong) simp_all
  ultimately show ?thesis
    by blast
qed

theorem cv_res_deterministic_witness:
  "seed_controlled example_sk \<and>
   fst (cv_res example_sk () () example_best_params 0) =
     fst (cv_res example_sk () () example_best_params 7) \<and>
   fst (cv_res example_sk () () example_best_params 0) =
     Inr [(''RF'', [9 / 2, 29 / 2, 49 / 2, 69 / 2, 89 / 2]),
          (''AdaBoost'', [9 / 2, 29 / 2, 49 / 2, 69 / 2, 89 / 2]),
          (''SVC'', [9 / 2, 29 / 2, 49 / 2, 69 / 2, 89 / 2]),
          (''MLP'', [9 / 2, 29 / 2, 49 / 2, 69 / 2, 89 / 2])]"
  using cv_res_deterministic [OF example_sk_seed_controlled, of "()" "()" example_best_params 0 7]
    example_sk_seed_controlled example_cv_res [of 0]
  by blast



text \<open>
  Claim C8, as the code has it. When \<^verbatim>\<open>pd.read_csv\<close> raises for the input file (as it
  does for a file of zero bytes), or the parsed table has no column at all, the call ends
  with an exception and the file system is unchanged; once the model and the tokenizer are
  loaded, the exception is the one \<^verbatim>\<open>read_csv\<close> raised, or the \<^verbatim>\<open>IndexError\<close> of
  \<^verbatim>\<open>iloc[:, 0]\<close>. \<^verbatim>\<open>process_embeddings\<close> checks nothing else about the table.
\<close>

theorem process_embeddings_unreadable_input:
  assumes "read_csv env data_file = Inl e \<or>
           (\<exists>data. read_csv env data_file = Inr data \<and> col_data data = [])"
  shows "(\<exists>e'. process_embeddings env data_file model_name files = (Inl e', files)) \<and>
         (\<forall>cfg mdl tok.
            map_of MODELS model_name = Some cfg \<and>
            from_pretrained_model env (model_path cfg) = Inr mdl \<and>
            from_pretrained_tokenizer env (model_path cfg) = Inr tok \<longrightarrow>
            process_embeddings env data_file model_name files =
              (Inl (case read_csv env data_file of Inl e0 \<Rightarrow> e0 | Inr data \<Rightarrow> IndexError),
               files))"
  using assms
  by (auto simp: process_embeddings_def iloc_col0_def split: option.splits sum.splits)

theorem process_embeddings_unreadable_input_witness:
  "read_csv example_env ''zero_bytes.csv'' =
     Inl (LibraryError ''EmptyDataError: No columns to parse from file'') \<and>
   process_embeddings example_env ''zero_bytes.csv'' ''Lasso_ESM'' Map.empty =
     (Inl (LibraryError ''EmptyDataError: No columns to parse from file''), Map.empty)"
proof -
  let ?cfg = "\<lparr>model_path = ''ShuklaGroupIllinois/LassoESM'',
               output_file = ''FusA_LassoESM.npy''\<rparr>"
  have r: "read_csv example_env ''zero_bytes.csv'' =
     Inl (LibraryError ''EmptyDataError: No columns to parse from file'')"
    by (simp add: example_env_def example_tables_def)
  then have h: "read_csv example_env ''zero_bytes.csv'' =
       Inl (LibraryError ''EmptyDataError: No columns to parse from file'') \<or>
     (\<exists>data. read_csv example_env ''zero_bytes.csv'' = Inr data \<and> col_data data = [])"
    by simp
  have c: "map_of MODELS ''Lasso_ESM'' = Some ?cfg \<and>
           from_pretrained_model example_env (model_path ?cfg) = Inr example_model \<and>
           from_pretrained_tokenizer example_env (model_path ?cfg) = Inr example_tokenizer"
    by (simp add: MODELS_def example_env_def)
  note process_embeddings_unreadable_input [OF h, of "''Lasso_ESM''" Map.empty,
      THEN conjunct2, rule_format, OF c]
  with r show ?thesis
    by simp
qed

text \<open>
  Claim C8 as stated does not hold: a table with a header and no data row, and a table
  without the label column, both go through \<^verbatim>\<open>process_embeddings\<close>, which completes and
  saves an array (of shape \<open>(0,)\<close> for the table without rows).
\<close>

theorem process_embeddings_no_format_check_counterexample:
  "process_embeddings example_env ''header_only.csv'' ''Lasso_ESM'' Map.empty =
     (Inr (), [''FusA_LassoESM.npy'' \<mapsto> \<lparr>shape = [0], arr_rows = []\<rparr>]) \<and>
   process_embeddings example_env ''no_label.csv'' ''Lasso_ESM'' Map.empty =
     (Inr (), [''FusA_LassoESM.npy'' \<mapsto>
                \<lparr>shape = [1, 2], arr_rows = [[Fin (69 / 2), Fin (71 / 2)]]\<rparr>])"
  by (simp add: example_run)

text \<open>
  Claim C9, as the code has it. A completed \<^verbatim>\<open>process_embeddings\<close> call changes the file
  system at exactly one path, the output file configured for the model, where the new array
  replaces whatever was there. The three configured output files are distinct:
  \<^verbatim>\<open>FusA_LassoESM.npy\<close> for \<^verbatim>\<open>Lasso_ESM\<close>, \<^verbatim>\<open>FusA_VanillaESM.npy\<close> for \<^verbatim>\<open>VanillaESM\<close> and
  \<^verbatim>\<open>FusA_PeptideESM_650M.npy\<close> for \<^verbatim>\<open>PeptideESM\<close>. A completed run of the notebook's loop
  over all configured models leaves these three files, one per model, and changes nothing
  else.
\<close>

theorem process_embeddings_output_file:
  assumes "process_embeddings env data_file model_name files = (Inr (), files')"
  shows "(\<exists>arr. model_name = ''Lasso_ESM'' \<and> files' = files(''FusA_LassoESM.npy'' \<mapsto> arr) \<or>
               model_name = ''VanillaESM'' \<and> files' = files(''FusA_VanillaESM.npy'' \<mapsto> arr) \<or>
               model_name = ''PeptideESM'' \<and>
                 files' = files(''FusA_PeptideESM_650M.npy'' \<mapsto> arr)) \<and>
         distinct (map (\<lambda>(name, cfg). output_file cfg) MODELS) \<and>
         (\<forall>before after.
            main env before = (Inr (), after) \<longrightarrow>
            (\<exists>a b c. after = before(''FusA_LassoESM.npy'' \<mapsto> a, ''FusA_VanillaESM.npy'' \<mapsto> b,
                                     ''FusA_PeptideESM_650M.npy'' \<mapsto> c)))"
proof -
  from process_embeddings_Inr [OF assms] obtain cfg arr where
    c: "map_of MODELS model_name = Some cfg" and f: "files' = files(output_file cfg \<mapsto> arr)"
    by blast
  from c have "model_name = ''Lasso_ESM'' \<and> output_file cfg = ''FusA_LassoESM.npy'' \<or>
               model_name = ''VanillaESM'' \<and> output_file cfg = ''FusA_VanillaESM.npy'' \<or>
               model_name = ''PeptideESM'' \<and> output_file cfg = ''FusA_PeptideESM_650M.npy''"
    by (auto simp: MODELS_def split: if_splits)
  with f have "\<exists>arr. model_name = ''Lasso_ESM'' \<and> files' = files(''FusA_LassoESM.npy'' \<mapsto> arr) \<or>
               model_name = ''VanillaESM'' \<and> files' = files(''FusA_VanillaESM.npy'' \<mapsto> arr) \<or>
               model_name = ''PeptideESM'' \<and>
                 files' = files(''FusA_PeptideESM_650M.npy'' \<mapsto> arr)"
    by auto
  moreover have "distinct (map (\<lambda>(name, cfg). output_file cfg) MODELS)"
    by (simp add: MODELS_def)
  ultimately show ?thesis
    using main_Inr by blast
qed

theorem process_embeddings_output_file_witness:
  "process_embeddings example_env ''no_label.csv'' ''PeptideESM''
       [''FusA_PeptideESM_650M.npy'' \<mapsto> \<lparr>shape = [0], arr_rows = []\<rparr>,
        ''FusA_VanillaESM.npy'' \<mapsto> \<lparr>shape = [0], arr_rows = []\<rparr>] =
     (Inr (), [''FusA_PeptideESM_650M.npy'' \<mapsto>
                 \<lparr>shape = [1, 2], arr_rows = [[Fin (69 / 2), Fin (71 / 2)]]\<rparr>,
               ''FusA_VanillaESM.npy'' \<mapsto> \<lparr>shape = [0], arr_rows = []\<rparr>]) \<and>
   (\<exists>arr. [''FusA_PeptideESM_650M.npy'' \<mapsto>
                 \<lparr>shape = [1, 2], arr_rows = [[Fin (69 / 2), Fin (71 / 2)]]\<rparr>,
               ''FusA_VanillaESM.npy'' \<mapsto> \<lparr>shape = [0], arr_rows = []\<rparr>] =
           [''FusA_PeptideESM_650M.npy'' \<mapsto> \<lparr>shape = [0], arr_rows = []\<rparr>,
            ''FusA_VanillaESM.npy'' \<mapsto> \<lparr>shape = [0], arr_rows = []\<rparr>]
           (''FusA_PeptideESM_650M.npy'' \<mapsto> arr)) \<and>
   (\<exists>after. main example_env [''FusA_VanillaESM.npy'' \<mapsto> \<lparr>shape = [0], arr_rows = []\<rparr>] =
              (Inr (), after) \<and>
      (\<exists>a b c. after =
         [''FusA_VanillaESM.npy'' \<mapsto> \<lparr>shape = [0], arr_rows = []\<rparr>]
         (''FusA_LassoESM.npy'' \<mapsto> a, ''FusA_VanillaESM.npy'' \<mapsto> b,
          ''FusA_PeptideESM_650M.npy'' \<mapsto> c)))"
proof -
  let ?old = "[''FusA_PeptideESM_650M.npy'' \<mapsto> \<lparr>shape = [0], arr_rows = []\<rparr>,
        ''FusA_VanillaESM.npy'' \<mapsto> \<lparr>shape = [0], arr_rows = []\<rparr>]"
  let ?new = "[''FusA_PeptideESM_650M.npy'' \<mapsto>
                 \<lparr>shape = [1, 2], arr_rows = [[Fin (69 / 2), Fin (71 / 2)]]\<rparr>,
               ''FusA_VanillaESM.npy'' \<mapsto> \<lparr>shape = [0], arr_rows = []\<rparr>]"
  have r: "process_embeddings example_env ''no_label.csv'' ''PeptideESM'' ?old = (Inr (), ?new)"
    by (simp add: example_run fun_upd_twist)
  note t = process_embeddings_output_file [OF r]
  from t have "\<exists>arr. ?new = ?old(''FusA_PeptideESM_650M.npy'' \<mapsto> arr)"
    by simp
  moreover from t example_main
  have "\<exists>after. main example_env [''FusA_VanillaESM.npy'' \<mapsto> \<lparr>shape = [0], arr_rows = []\<rparr>] =
              (Inr (), after) \<and>
      (\<exists>a b c. after =
         [''FusA_VanillaESM.npy'' \<mapsto> \<lparr>shape = [0], arr_rows = []\<rparr>]
         (''FusA_LassoESM.npy'' \<mapsto> a, ''FusA_VanillaESM.npy'' \<mapsto> b,
          ''FusA_PeptideESM_650M.npy'' \<mapsto> c))"
    by blast
  ultimately show ?thesis
    using r by blast
qed

text \<open>
  Claim C9 as stated does not hold: the file name is not always the prefix \<^verbatim>\<open>FusA_\<close>
  followed by the model's configured name. For the model configured as \<^verbatim>\<open>Lasso_ESM\<close> the
  file written is \<^verbatim>\<open>FusA_LassoESM.npy\<close>, and no file \<^verbatim>\<open>FusA_Lasso_ESM.npy\<close> exists afterwards.
\<close>

theorem output_file_not_model_name_counterexample:
  "process_embeddings example_env ''two.csv'' ''Lasso_ESM'' Map.empty =
     (Inr (), [''FusA_LassoESM.npy'' \<mapsto>
                \<lparr>shape = [2, 2],
                 arr_rows = [[Fin (69 / 2), Fin (71 / 2)], [Fin (73 / 3), Fin (76 / 3)]]\<rparr>]) \<and>
   ''FusA_LassoESM.npy'' \<noteq> ''FusA_'' @ ''Lasso_ESM'' @ ''.npy'' \<and>
   snd (process_embeddings example_env ''two.csv'' ''Lasso_ESM'' Map.empty)
     (''FusA_'' @ ''Lasso_ESM'' @ ''.npy'') = None"
  by (simp add: example_run numeral_2_eq_2)

text \<open>
  Claim C10. The vector \<^verbatim>\<open>get_mean_rep\<close> returns averages every row of the final
  hidden-state matrix: the sum runs over all \<open>dim0 t\<close> token positions and is divided by
  that count. When the tokenizer frames the residues with a begin and an end token, the rows
  of these two special tokens are summands like the residues' rows, and the divisor is the
  number of residues plus two; no position is left out.
\<close>

theorem get_mean_rep_all_positions:
  assumes "encode tok sequence = Inr ids"
    and "forward mdl ids = Inr hidden_states"
    and "index_last hidden_states = Inr layer"
    and "index_first layer = Inr t"
    and "0 < dim0 t"
  shows "get_mean_rep sequence mdl tok =
           Inr (map (\<lambda>j. Fin ((\<Sum>i<dim0 t. entry t i j) / real (dim0 t))) [0..<dim1 t]) \<and>
         (\<forall>bos residues eos.
            ids = bos # residues @ [eos] \<and> dim0 t = length ids \<longrightarrow>
            get_mean_rep sequence mdl tok =
              Inr (map (\<lambda>j. Fin ((entry t 0 j + (\<Sum>i = 1..length residues. entry t i j)
                                   + entry t (Suc (length residues)) j)
                                  / real (length residues + 2)))
                       [0..<dim1 t]))"
proof -
  from assms have g: "get_mean_rep sequence mdl tok = Inr (mean_dim0 t)"
    by (simp add: get_mean_rep_def)
  have "mean_dim0 t =
          map (\<lambda>j. Fin ((entry t 0 j + (\<Sum>i = 1..length residues. entry t i j)
                             + entry t (Suc (length residues)) j)
                            / real (length residues + 2)))
              [0..<dim1 t]"
    if "ids = bos # residues @ [eos]" and "dim0 t = length ids" for bos residues eos
  proof -
    from that have "dim0 t = Suc (Suc (length residues))"
      by simp
    from mean_dim0_framed [OF this] show ?thesis
      by simp
  qed
  with g mean_dim0_eq [OF assms(5)] show ?thesis
    by simp
qed

theorem get_mean_rep_all_positions_witness:
  "encode example_tokenizer ''GA'' = Inr (0 # [71, 65] @ [2]) \<and>
   get_mean_rep ''GA'' example_model example_tokenizer =
     Inr [Fin ((0 + (71 + 65) + 2) / 4), Fin ((1 + (72 + 66) + 3) / 4)] \<and>
   Fin ((0 + (71 + 65) + 2) / 4) \<noteq> Fin ((71 + 65) / 2)"
proof -
  let ?ids = "[0, 71, 65, 2 :: nat]"
  let ?z = "\<lparr>dim0 = 4, dim1 = 2, entry = (\<lambda>i j. 0)\<rparr>"
  let ?t = "\<lparr>dim0 = 4, dim1 = 2, entry = (\<lambda>i j. real (?ids ! i) + real j)\<rparr>"
  have e: "encode example_tokenizer ''GA'' = Inr ?ids"
    by (simp add: example_tokenizer_def)
  have f: "forward example_model ?ids = Inr [[?z], [?t]]"
    by (simp add: example_model_def)
  have l: "index_last [[?z], [?t]] = Inr [?t]"
    by (simp add: index_last_def)
  have h: "index_first [?t] = Inr ?t"
    by (simp add: index_first_def)
  have p: "0 < dim0 ?t"
    by simp
  have s: "(\<Sum>i = 1..2. g i) = g 1 + g 2" for g :: "nat \<Rightarrow> real"
    by (simp add: numeral_2_eq_2)
  have c: "?ids = 0 # [71, 65] @ [2] \<and> dim0 ?t = length ?ids"
    by simp
  note get_mean_rep_all_positions [OF e f l h p, THEN conjunct2, rule_format, OF c]
  then have "get_mean_rep ''GA'' example_model example_tokenizer =
     Inr [Fin ((0 + (71 + 65) + 2) / 4), Fin ((1 + (72 + 66) + 3) / 4)]"
    by (simp add: s upt_rec)
  with e show ?thesis
    by simp
qed

end
